theory Spec2Isabelle
  imports Complex_Main "HOL-Library.Word"
begin

section \<open>Machine types and constants\<close>

text \<open>
  The firmware exists in two variants: \<^verbatim>\<open>main.ino\<close> (framework variant, software
  phase accumulator) and \<^verbatim>\<open>main.c\<close> (register-level variant, hardware timer).
  \<^verbatim>\<open>uint16_t\<close> and \<^verbatim>\<open>uint32_t\<close> are words whose arithmetic wraps around;
  \<^verbatim>\<open>int16_t\<close> is a 16-bit word read through \<open>sint\<close>.
\<close>

type_synonym u16 = "16 word"
type_synonym u32 = "32 word"
type_synonym i16 = "16 word"

text \<open>\<^verbatim>\<open>#define MIN_FREQ 200\<close>, \<^verbatim>\<open>#define MAX_FREQ 2000\<close> and
  \<^verbatim>\<open>const uint32_t UPDATE_INTERVAL = 100\<close> of \<^verbatim>\<open>main.ino\<close>. The two macros are
  \<^verbatim>\<open>int\<close> constants that the usual arithmetic conversions turn into \<^verbatim>\<open>uint32_t\<close>
  wherever the source uses them.\<close>

definition MIN_FREQ :: u32 where
  "MIN_FREQ = 200"

definition MAX_FREQ :: u32 where
  "MAX_FREQ = 2000"

definition UPDATE_INTERVAL :: u32 where
  "UPDATE_INTERVAL = 100"

section \<open>Frequency mapping\<close>

text \<open>\<^verbatim>\<open>map_frequency\<close> of \<^verbatim>\<open>main.ino\<close>: the linear formula in 32-bit unsigned
  arithmetic, followed by the two clamping tests in the order of the source.\<close>

definition map_frequency :: "u16 \<Rightarrow> u32" where
  "map_frequency adc_value =
     (let frequency = MIN_FREQ + (ucast adc_value * (MAX_FREQ - MIN_FREQ)) div 4095;
          frequency = (if frequency < MIN_FREQ then MIN_FREQ else frequency);
          frequency = (if frequency > MAX_FREQ then MAX_FREQ else frequency)
      in frequency)"

text \<open>\<^verbatim>\<open>Temperature_To_Frequency\<close> of \<^verbatim>\<open>main.c\<close>: the same computation with the
  constants written as literals.\<close>

definition Temperature_To_Frequency :: "u16 \<Rightarrow> u32" where
  "Temperature_To_Frequency adc_value =
     (let frequency = 200 + (ucast adc_value * 1800) div 4095;
          frequency = (if frequency < 200 then 200 else frequency);
          frequency = (if frequency > 2000 then 2000 else frequency)
      in frequency)"

section \<open>Retune decision\<close>

text \<open>Both variants compare \<^verbatim>\<open>abs((int32_t)new_frequency - (int32_t)current_frequency)\<close>
  with 5. The casts read the 32-bit words as two's complement; the difference is taken
  as a mathematical integer, which is what C computes whenever the subtraction does not
  overflow (an overflow is undefined in C and does not occur for frequencies below
  \<open>2 ^ 31\<close>).\<close>

definition abs_diff_i32 :: "u32 \<Rightarrow> u32 \<Rightarrow> int" where
  "abs_diff_i32 new_frequency current_frequency = \<bar>sint new_frequency - sint current_frequency\<bar>"

text \<open>The condition of the \<^verbatim>\<open>if\<close> in \<^verbatim>\<open>loop()\<close> of \<^verbatim>\<open>main.ino\<close>; \<open>millis\<close> is
  the value returned by \<^verbatim>\<open>millis()\<close>, and the unsigned subtraction wraps.\<close>

definition loop_retune_condition :: "u32 \<Rightarrow> u32 \<Rightarrow> u32 \<Rightarrow> u32 \<Rightarrow> bool" where
  "loop_retune_condition new_frequency current_frequency millis last_update =
     (abs_diff_i32 new_frequency current_frequency > 5 \<or>
      (millis - last_update) > UPDATE_INTERVAL)"

text \<open>The condition of the \<^verbatim>\<open>if\<close> in the main loop of \<^verbatim>\<open>main.c\<close>, which has no
  elapsed-time term.\<close>

definition main_retune_condition :: "u32 \<Rightarrow> u32 \<Rightarrow> bool" where
  "main_retune_condition new_frequency current_frequency =
     (abs_diff_i32 new_frequency current_frequency > 5)"

text \<open>The retune predicate in the words of the specification, for comparison with the
  two conditions of the source: frequencies in Hz, elapsed time in milliseconds.\<close>

definition shouldRetune_spec :: "int \<Rightarrow> int \<Rightarrow> int \<Rightarrow> bool" where
  "shouldRetune_spec previous candidate elapsed_ms =
     (\<bar>candidate - previous\<bar> > 5 \<or> elapsed_ms \<ge> 100)"

section \<open>Tone generator of the framework variant\<close>

text \<open>The two \<^verbatim>\<open>static\<close> variables of \<^verbatim>\<open>generate_tone\<close>. The \<^verbatim>\<open>double\<close> phase is
  modelled as a real number: rounding of the floating-point operations is not part of
  the model.\<close>

record tone_state =
  phase :: real
  last_time :: u32

definition initial_tone_state :: tone_state where
  "initial_tone_state = \<lparr>phase = 0, last_time = 0\<rparr>"

text \<open>The loop \<^verbatim>\<open>while (phase >= 2.0 * PI) phase -= 2.0 * PI;\<close>\<close>

function wrap_phase :: "real \<Rightarrow> real" where
  "wrap_phase p = (if p \<ge> 2 * pi then wrap_phase (p - 2 * pi) else p)"
  by pat_completeness auto
termination
proof (relation "measure (\<lambda>p. nat \<lfloor>p / (2 * pi)\<rfloor>)")
  show "wf (measure (\<lambda>p. nat \<lfloor>p / (2 * pi)\<rfloor>))" by simp
next
  fix p :: real
  assume over: "2 * pi \<le> p"
  have pos: "0 < 2 * pi" by simp
  have "(p - 2 * pi) / (2 * pi) = p / (2 * pi) - 1"
    using pos by (simp add: diff_divide_distrib)
  then have fl: "\<lfloor>(p - 2 * pi) / (2 * pi)\<rfloor> = \<lfloor>p / (2 * pi)\<rfloor> - 1" by simp
  have "1 \<le> p / (2 * pi)" using over pos by (simp add: le_divide_eq)
  then have "1 \<le> \<lfloor>p / (2 * pi)\<rfloor>" by simp
  with fl show "(p - 2 * pi, p) \<in> measure (\<lambda>p. nat \<lfloor>p / (2 * pi)\<rfloor>)"
    by simp
qed

text \<open>The defining equation of the loop is unfolded by hand, one iteration at a time.\<close>

declare wrap_phase.simps [simp del]

text \<open>The conversion of a \<^verbatim>\<open>double\<close> to an integer type truncates towards zero.\<close>

definition double_to_int :: "real \<Rightarrow> int" where
  "double_to_int x = (if 0 \<le> x then \<lfloor>x\<rfloor> else \<lceil>x\<rceil>)"

text \<open>The two clamping tests on the \<^verbatim>\<open>int16_t\<close> variable \<^verbatim>\<open>sine_value\<close>.\<close>

definition clamp_sine_value :: "i16 \<Rightarrow> i16" where
  "clamp_sine_value sine_value =
     (let sine_value = (if sint sine_value < 0 then 0 else sine_value);
          sine_value = (if sint sine_value > 4095 then 4095 else sine_value)
      in sine_value)"

text \<open>\<^verbatim>\<open>int16_t sine_value = 2048 + (int16_t)(2047 * sin(phase));\<close> followed by the
  clamp: the product is cast to \<^verbatim>\<open>int16_t\<close>, the sum is computed in \<^verbatim>\<open>int\<close> and
  stored into 16 bits.\<close>

definition sine_value_of :: "real \<Rightarrow> i16" where
  "sine_value_of ph =
     clamp_sine_value
       (word_of_int (2048 + sint (word_of_int (double_to_int (2047 * sin ph)) :: i16)))"

text \<open>The argument of \<^verbatim>\<open>analogWrite\<close>: \<^verbatim>\<open>sine_value >> 4\<close>, computed in \<^verbatim>\<open>int\<close>.\<close>

definition pwm_duty :: "i16 \<Rightarrow> int" where
  "pwm_duty sine_value = drop_bit 4 (sint sine_value)"

text \<open>\<^verbatim>\<open>generate_tone\<close>: the global \<^verbatim>\<open>current_frequency\<close> and the value returned by
  \<^verbatim>\<open>micros()\<close> are parameters; the result is the new state and the value passed to
  \<^verbatim>\<open>analogWrite\<close>, if the call is reached.\<close>

definition generate_tone :: "u32 \<Rightarrow> u32 \<Rightarrow> tone_state \<Rightarrow> tone_state \<times> int option" where
  "generate_tone current_frequency current_time st =
     (let elapsed = current_time - last_time st in
      if elapsed > 0 \<and> current_frequency > 0 then
        (let time_seconds = real (unat elapsed) / 1000000;
             phase_increment = 2 * pi * real (unat current_frequency) * time_seconds;
             ph = wrap_phase (phase st + phase_increment);
             sine_value = sine_value_of ph
         in (\<lparr>phase = ph, last_time = current_time\<rparr>, Some (pwm_duty sine_value)))
      else if elapsed = 0 then (st\<lparr>last_time := current_time\<rparr>, None)
      else (st, None))"

text \<open>A sequence of calls, each with the frequency and the clock value it sees. The
  second component is the duty cycle held by the output pin: the last value written by
  \<^verbatim>\<open>analogWrite\<close>, or \<open>None\<close> before the first write.\<close>

fun tone_calls :: "(u32 \<times> u32) list \<Rightarrow> tone_state \<times> int option \<Rightarrow> tone_state \<times> int option" where
  "tone_calls [] s = s"
| "tone_calls ((f, t) # cs) (st, pin) =
     (case generate_tone f t st of
        (st', None) \<Rightarrow> tone_calls cs (st', pin)
      | (st', Some d) \<Rightarrow> tone_calls cs (st', Some d))"

section \<open>Timer of the register-level variant\<close>

datatype fault = DivideByZero

text \<open>The registers of TIM2 that receive a computed value. The other statements of
  \<^verbatim>\<open>TIM2_Init\<close> set or clear fixed bits of control registers.\<close>

record tim2_regs =
  PSC :: u32
  ARR :: u32

definition TIM2_Init :: "u32 \<Rightarrow> tim2_regs \<Rightarrow> fault + tim2_regs" where
  "TIM2_Init frequency tim2 =
     (let timer_clock = (84000000 :: u32) in
      if frequency = 0 then Inl DivideByZero
      else (let period = (timer_clock div frequency) - 1
            in Inr (tim2\<lparr>PSC := 0, ARR := period\<rparr>)))"

text \<open>The state of \<^verbatim>\<open>main\<close> in \<^verbatim>\<open>main.c\<close>: the global \<^verbatim>\<open>current_frequency\<close>, the
  timer registers, and a history of the arguments of the calls of \<^verbatim>\<open>TIM2_Init\<close>
  (a ghost field, newest first).\<close>

record main_state =
  mc_current_frequency :: u32
  mc_tim2 :: tim2_regs
  mc_TIM2_Init_args :: "u32 list"

definition call_TIM2_Init :: "u32 \<Rightarrow> main_state \<Rightarrow> fault + main_state" where
  "call_TIM2_Init frequency s =
     (case TIM2_Init frequency (mc_tim2 s) of
        Inl e \<Rightarrow> Inl e
      | Inr r \<Rightarrow> Inr (s\<lparr>mc_tim2 := r, mc_TIM2_Init_args := frequency # mc_TIM2_Init_args s\<rparr>))"

text \<open>The start of \<^verbatim>\<open>main\<close>: \<^verbatim>\<open>current_frequency\<close> is initialised to 440 and
  \<^verbatim>\<open>TIM2_Init(440)\<close> is called.\<close>

definition main_start :: "tim2_regs \<Rightarrow> fault + main_state" where
  "main_start tim2 =
     call_TIM2_Init 440 \<lparr>mc_current_frequency = 440, mc_tim2 = tim2, mc_TIM2_Init_args = []\<rparr>"

text \<open>One iteration of \<^verbatim>\<open>while (1)\<close> with the sample returned by
  \<^verbatim>\<open>ADC_Read_Temperature\<close>.\<close>

definition main_iteration :: "u16 \<Rightarrow> main_state \<Rightarrow> fault + main_state" where
  "main_iteration adc_value s =
     (let new_frequency = Temperature_To_Frequency adc_value in
      if main_retune_condition new_frequency (mc_current_frequency s)
      then (let s' = s\<lparr>mc_current_frequency := new_frequency\<rparr>
            in call_TIM2_Init (mc_current_frequency s') s')
      else Inr s)"

fun main_loop :: "u16 list \<Rightarrow> main_state \<Rightarrow> fault + main_state" where
  "main_loop [] s = Inr s"
| "main_loop (adc_value # rest) s =
     (case main_iteration adc_value s of
        Inl e \<Rightarrow> Inl e
      | Inr s' \<Rightarrow> main_loop rest s')"

text \<open>The program up to any finite number of iterations of its endless loop.\<close>

definition main_program :: "tim2_regs \<Rightarrow> u16 list \<Rightarrow> fault + main_state" where
  "main_program tim2 samples =
     (case main_start tim2 of
        Inl e \<Rightarrow> Inl e
      | Inr s \<Rightarrow> main_loop samples s)"

text \<open>The property of the call history that the main loop maintains.\<close>

abbreviation args_ok :: "main_state \<Rightarrow> bool" where
  "args_ok s \<equiv> (\<forall>f \<in> set (mc_TIM2_Init_args s).
      (f = 440 \<or> (\<exists>a. f = Temperature_To_Frequency a)) \<and> 200 \<le> f)"

section \<open>Properties of the frequency mapping\<close>

lemma unat_u16_bound: "unat (v :: u16) < 65536"
proof -
  have "unat v < 2 ^ LENGTH(16)" by (rule unsigned_less)
  then show ?thesis by simp
qed

lemma unat_ucast_u16: "unat (ucast (v :: u16) :: u32) = unat v"
proof -
  have "unat v < 2 ^ 32" using unat_u16_bound [of v] by simp
  then show ?thesis by (simp add: unsigned_ucast_eq take_bit_nat_eq_self)
qed

text \<open>The product \<open>adc_value * 1800\<close> is at most 117963000 and never wraps in 32 bits.\<close>

lemma unat_scaled: "unat ((ucast (v :: u16) :: u32) * 1800) = unat v * 1800"
proof -
  have "unat v < 65536" by (rule unat_u16_bound)
  then have "unat v * 1800 < 4294967296" by simp
  then show ?thesis
    by (simp add: unat_word_ariths unat_ucast_u16)
qed

lemma unat_raw:
  "unat (200 + ((ucast (v :: u16) :: u32) * 1800) div 4095) = 200 + unat v * 1800 div 4095"
proof -
  have b: "unat v < 65536" by (rule unat_u16_bound)
  have "unat (((ucast v :: u32) * 1800) div 4095) = unat v * 1800 div 4095"
    by (simp add: unat_div unat_scaled)
  moreover have "200 + unat v * 1800 div 4095 < 2 ^ 32" using b by simp
  ultimately show ?thesis by (simp add: unat_word_ariths)
qed

lemma unat_map_frequency:
  "unat (map_frequency v) = min 2000 (200 + unat v * 1800 div 4095)"
  unfolding map_frequency_def MIN_FREQ_def MAX_FREQ_def Let_def
  using unat_raw [of v]
  by (simp add: word_less_nat_alt min_def)

text \<open>The two variants implement the same function.\<close>

lemma Temperature_To_Frequency_eq: "Temperature_To_Frequency v = map_frequency v"
  unfolding Temperature_To_Frequency_def map_frequency_def MIN_FREQ_def MAX_FREQ_def Let_def
  by simp

lemma map_frequency_bounds: "200 \<le> unat (map_frequency v) \<and> unat (map_frequency v) \<le> 2000"
  by (simp add: unat_map_frequency)

text \<open>
  Claim C1. For every unsigned 16-bit input, also above 4095, both variants of the
  frequency mapping return a frequency between 200 and 2000. The functions are total:
  they have a value at every 16-bit word and no error result.
\<close>

theorem C1_frequency_in_range:
  "200 \<le> map_frequency v \<and> map_frequency v \<le> 2000 \<and>
   200 \<le> Temperature_To_Frequency v \<and> Temperature_To_Frequency v \<le> 2000"
  using map_frequency_bounds [of v]
  by (simp add: Temperature_To_Frequency_eq word_le_nat_alt)


text \<open>
  Claim C2. Both variants compute \<open>200 + (sample * 1800) / 4095\<close> in integer arithmetic
  (the 32-bit product does not wrap), capped at 2000 for samples above the nominal
  range; on the nominal range \<open>[0, 4095]\<close> the result is exactly the formula. Sample 0
  maps to 200, sample 4095 to 2000, and sample 2048 to a value within 1 Hz of 1100.
\<close>

theorem C2_linear_formula:
  "unat (map_frequency v) = min 2000 (200 + unat v * 1800 div 4095) \<and>
   unat (Temperature_To_Frequency v) = min 2000 (200 + unat v * 1800 div 4095) \<and>
   (unat v \<le> 4095 \<longrightarrow> unat (map_frequency v) = 200 + unat v * 1800 div 4095 \<and>
                      unat (Temperature_To_Frequency v) = 200 + unat v * 1800 div 4095) \<and>
   map_frequency 0 = 200 \<and> map_frequency 4095 = 2000 \<and>
   \<bar>int (unat (map_frequency 2048)) - 1100\<bar> \<le> 1 \<and>
   Temperature_To_Frequency 0 = 200 \<and> Temperature_To_Frequency 4095 = 2000 \<and>
   \<bar>int (unat (Temperature_To_Frequency 2048)) - 1100\<bar> \<le> 1"
proof -
  have general: "unat (map_frequency v) = min 2000 (200 + unat v * 1800 div 4095)"
    by (rule unat_map_frequency)
  have nominal: "unat (map_frequency v) = 200 + unat v * 1800 div 4095" if "unat v \<le> 4095"
  proof -
    from that have "unat v * 1800 \<le> 4095 * 1800" by simp
    then have "unat v * 1800 div 4095 \<le> 4095 * 1800 div 4095" by (rule div_le_mono)
    then have "200 + unat v * 1800 div 4095 \<le> 2000" by simp
    with general show ?thesis by (simp only: min_absorb2)
  qed
  have points: "map_frequency 0 = 200" "map_frequency 4095 = 2000" "map_frequency 2048 = 1100"
    by (simp_all add: map_frequency_def MIN_FREQ_def MAX_FREQ_def)
  from points(3) have near: "\<bar>int (unat (map_frequency 2048)) - 1100\<bar> \<le> 1" by simp
  show ?thesis
    unfolding Temperature_To_Frequency_eq
    using general nominal points(1,2) near by blast
qed

theorem C2_linear_formula_witness:
  "unat (4095 :: u16) \<le> 4095 \<and> unat (map_frequency 4095) = 200 + unat (4095 :: u16) * 1800 div 4095"
  using C2_linear_formula [of 4095] by simp

text \<open>
  Claim C6. For samples \<open>s1 \<le> s2\<close> of the nominal range \<open>[0, 4095]\<close>, the mapped
  frequency of \<open>s1\<close> is at most that of \<open>s2\<close>, in both variants.
\<close>

theorem C6_monotone:
  "s1 \<le> s2 \<Longrightarrow> s2 \<le> 4095 \<Longrightarrow>
   map_frequency s1 \<le> map_frequency s2 \<and>
   Temperature_To_Frequency s1 \<le> Temperature_To_Frequency s2"
proof -
  assume le: "s1 \<le> s2"
  then have "unat s1 \<le> unat s2" by (simp add: word_le_nat_alt)
  then have "unat s1 * 1800 div 4095 \<le> unat s2 * 1800 div 4095"
    by (intro div_le_mono) simp
  then have "unat (map_frequency s1) \<le> unat (map_frequency s2)"
    by (simp add: unat_map_frequency min_def)
  then show ?thesis
    by (simp add: Temperature_To_Frequency_eq word_le_nat_alt)
qed

theorem C6_monotone_witness:
  "(100 :: u16) \<le> 4000 \<and> (4000 :: u16) \<le> 4095 \<and> map_frequency 100 \<le> map_frequency 4000 \<and>
   Temperature_To_Frequency 100 \<le> Temperature_To_Frequency 4000"
  using C6_monotone [of 100 4000] by simp


section \<open>Properties of the retune decision\<close>

lemma sint_small_u32: "unat (x :: u32) < 2147483648 \<Longrightarrow> sint x = int (unat x)"
proof -
  assume "unat x < 2147483648"
  then have "int (unat x) < 2147483648" by linarith
  then have hi: "uint x < 2147483648" by simp
  have "(0 :: int) \<le> uint x" by simp
  then have lo: "- 2147483648 \<le> uint x" by linarith
  have "signed_take_bit 31 (uint x) = uint x"
    using lo hi by (simp add: signed_take_bit_int_eq_self)
  then show ?thesis by (simp add: sint_uint)
qed

lemma abs_diff_i32_small:
  "unat a < 2147483648 \<Longrightarrow> unat b < 2147483648 \<Longrightarrow> abs_diff_i32 a b = \<bar>int (unat a) - int (unat b)\<bar>"
  by (simp add: abs_diff_i32_def sint_small_u32)

text \<open>
  Claim C3, as stated, fails on the code. The specification's predicate retunes when
  exactly 100 ms have elapsed; the condition in \<^verbatim>\<open>loop()\<close> compares with \<open>>\<close> and does
  not retune at 100 ms when the frequency is unchanged. The condition in \<^verbatim>\<open>main\<close> of
  \<^verbatim>\<open>main.c\<close> has no elapsed-time term and does not retune an unchanged frequency after
  150 ms either.
\<close>

theorem C3_retune_counterexample:
  "shouldRetune_spec 1000 1000 100 \<and> \<not> loop_retune_condition 1000 1000 100 0 \<and>
   shouldRetune_spec 1000 1000 150 \<and> \<not> main_retune_condition 1000 1000"
  by (simp add: shouldRetune_spec_def loop_retune_condition_def main_retune_condition_def
      abs_diff_i32_def UPDATE_INTERVAL_def)

text \<open>
  Claim C3, amended. For frequencies below \<open>2 ^ 31\<close>, the framework variant retunes if
  and only if the candidate differs from the previous frequency by more than 5 Hz or
  strictly more than 100 ms (difference of the 32-bit millisecond counter) have elapsed
  since the last update; the register-level variant retunes if and only if the
  candidate differs by more than 5 Hz. In the framework variant the decision is false
  for (1000, 1004, 50 ms), true for (1000, 1006, 50 ms) and true for (1000, 1000, 150 ms).
\<close>

theorem C3_retune_amended:
  "unat previous < 2147483648 \<Longrightarrow> unat candidate < 2147483648 \<Longrightarrow>
   loop_retune_condition candidate previous millis last_update =
     (\<bar>int (unat candidate) - int (unat previous)\<bar> > 5 \<or> unat (millis - last_update) > 100) \<and>
   main_retune_condition candidate previous =
     (\<bar>int (unat candidate) - int (unat previous)\<bar> > 5) \<and>
   \<not> loop_retune_condition 1004 1000 50 0 \<and>
   loop_retune_condition 1006 1000 50 0 \<and>
   loop_retune_condition 1000 1000 150 0"
proof -
  assume p: "unat previous < 2147483648" and c: "unat candidate < 2147483648"
  have d: "abs_diff_i32 candidate previous = \<bar>int (unat candidate) - int (unat previous)\<bar>"
    using c p by (rule abs_diff_i32_small)
  have e: "(millis - last_update > UPDATE_INTERVAL) = (unat (millis - last_update) > 100)"
    by (simp add: UPDATE_INTERVAL_def word_less_nat_alt)
  have ex: "\<not> loop_retune_condition 1004 1000 50 0" "loop_retune_condition 1006 1000 50 0"
    "loop_retune_condition 1000 1000 150 0"
    by (simp_all add: loop_retune_condition_def abs_diff_i32_def UPDATE_INTERVAL_def)
  show ?thesis
    unfolding loop_retune_condition_def main_retune_condition_def d e
    using ex unfolding loop_retune_condition_def by simp
qed

theorem C3_retune_amended_witness:
  "unat (1000 :: u32) < 2147483648 \<and> unat (1000 :: u32) < 2147483648 \<and>
   loop_retune_condition 1000 1000 101 0 \<and> \<not> loop_retune_condition 1000 1000 100 0 \<and>
   \<not> main_retune_condition 1000 1000"
  using C3_retune_amended [of 1000 1000 101 0] C3_retune_amended [of 1000 1000 100 0]
  by simp


section \<open>Properties of the tone generator\<close>

lemma wrap_phase_range: "0 \<le> p \<Longrightarrow> 0 \<le> wrap_phase p \<and> wrap_phase p < 2 * pi"
proof (induction p rule: wrap_phase.induct)
  case (1 p)
  show ?case
  proof (cases "2 * pi \<le> p")
    case True
    then have "0 \<le> p - 2 * pi" by simp
    with 1 True have "0 \<le> wrap_phase (p - 2 * pi) \<and> wrap_phase (p - 2 * pi) < 2 * pi"
      by blast
    moreover from True have "wrap_phase p = wrap_phase (p - 2 * pi)"
      by (subst wrap_phase.simps) simp
    ultimately show ?thesis by simp
  next
    case False
    then have "wrap_phase p = p" by (subst wrap_phase.simps) simp
    with 1 False show ?thesis by simp
  qed
qed

lemma wrap_phase_below: "p < 2 * pi \<Longrightarrow> wrap_phase p = p"
  by (subst wrap_phase.simps) simp

lemma generate_tone_idle:
  "current_time - last_time st = 0 \<or> current_frequency = 0 \<Longrightarrow>
   generate_tone current_frequency current_time st = (st, None)"
  by (auto simp: generate_tone_def Let_def)

lemma generate_tone_active:
  assumes "current_time - last_time st \<noteq> 0" and "current_frequency \<noteq> 0"
  shows "generate_tone current_frequency current_time st =
     (let ph = wrap_phase (phase st +
               2 * pi * real (unat current_frequency) *
               (real (unat (current_time - last_time st)) / 1000000))
      in (\<lparr>phase = ph, last_time = current_time\<rparr>, Some (pwm_duty (sine_value_of ph))))"
  using assms by (simp add: generate_tone_def Let_def word_greater_zero_iff)

lemma phase_increment_nonneg:
  "0 \<le> 2 * pi * real (unat (f :: u32)) * (real (unat (e :: u32)) / 1000000)"
  by (intro mult_nonneg_nonneg divide_nonneg_nonneg of_nat_0_le_iff) simp_all

lemma generate_tone_phase_range:
  assumes "0 \<le> phase st" and "phase st < 2 * pi"
  shows "0 \<le> phase (fst (generate_tone f t st)) \<and> phase (fst (generate_tone f t st)) < 2 * pi"
proof (cases "t - last_time st = 0 \<or> f = 0")
  case True
  then have "generate_tone f t st = (st, None)" by (rule generate_tone_idle)
  with assms show ?thesis by simp
next
  case False
  let ?p = "phase st + 2 * pi * real (unat f) * (real (unat (t - last_time st)) / 1000000)"
  have "0 \<le> ?p" using assms(1) phase_increment_nonneg [of f "t - last_time st"] by linarith
  then have "0 \<le> wrap_phase ?p \<and> wrap_phase ?p < 2 * pi" by (rule wrap_phase_range)
  moreover from False have "phase (fst (generate_tone f t st)) = wrap_phase ?p"
    by (simp add: generate_tone_active Let_def)
  ultimately show ?thesis by simp
qed

lemma tone_calls_phase_range:
  "0 \<le> phase st \<Longrightarrow> phase st < 2 * pi \<Longrightarrow>
   0 \<le> phase (fst (tone_calls cs (st, pin))) \<and> phase (fst (tone_calls cs (st, pin))) < 2 * pi"
proof (induction cs arbitrary: st pin)
  case Nil
  then show ?case by simp
next
  case (Cons c cs)
  obtain f t where c: "c = (f, t)" by (cases c)
  obtain st' out where g: "generate_tone f t st = (st', out)" by (cases "generate_tone f t st")
  have "0 \<le> phase st' \<and> phase st' < 2 * pi"
    using generate_tone_phase_range [OF Cons.prems, of f t] g by simp
  then have "0 \<le> phase (fst (tone_calls cs (st', p))) \<and> phase (fst (tone_calls cs (st', p))) < 2 * pi" for p
    using Cons.IH by blast
  then show ?case using c g by (cases out) simp_all
qed

lemma double_to_int_bound: "\<bar>x\<bar> \<le> 2047 \<Longrightarrow> \<bar>double_to_int x\<bar> \<le> 2047"
proof (cases "0 \<le> x")
  case True
  assume "\<bar>x\<bar> \<le> 2047"
  with True have "0 \<le> \<lfloor>x\<rfloor>" and "\<lfloor>x\<rfloor> \<le> 2047" by (simp_all add: floor_le_iff)
  with True show ?thesis by (simp add: double_to_int_def)
next
  case False
  assume "\<bar>x\<bar> \<le> 2047"
  then have "- 2047 \<le> x" by simp
  then have "\<lceil>- 2047 :: real\<rceil> \<le> \<lceil>x\<rceil>" by (rule ceiling_mono)
  then have lo: "- 2047 \<le> \<lceil>x\<rceil>" by simp
  from False have hi: "\<lceil>x\<rceil> \<le> 0" by (simp add: ceiling_le_iff)
  from False have eq: "double_to_int x = \<lceil>x\<rceil>" by (simp add: double_to_int_def)
  show ?thesis unfolding eq using lo hi by linarith
qed

lemma double_to_int_error: "\<bar>real_of_int (double_to_int x) - x\<bar> < 1"
  unfolding double_to_int_def by (auto simp: abs_less_iff) linarith+

lemma sine_arg_bound: "\<bar>2047 * sin (ph :: real)\<bar> \<le> 2047"
  using abs_sin_le_one [of ph] by (simp add: abs_mult)

lemma sint_i16_of_int: "- 32768 \<le> k \<Longrightarrow> k < 32768 \<Longrightarrow> sint (word_of_int k :: i16) = k"
  by (simp add: sint_sbintrunc' signed_take_bit_int_eq_self)

lemma clamp_sine_value_range:
  "0 \<le> sint (clamp_sine_value raw) \<and> sint (clamp_sine_value raw) \<le> 4095"
  unfolding clamp_sine_value_def Let_def by simp

lemma sine_value_of_eq: "sint (sine_value_of ph) = 2048 + double_to_int (2047 * sin ph)"
proof -
  let ?t = "double_to_int (2047 * sin ph)"
  have "\<bar>?t\<bar> \<le> 2047" by (rule double_to_int_bound [OF sine_arg_bound])
  then have b: "- 2047 \<le> ?t \<and> ?t \<le> 2047" by (simp add: abs_le_iff)
  then have t: "sint (word_of_int ?t :: i16) = ?t" by (intro sint_i16_of_int) simp_all
  have s: "sint (word_of_int (2048 + ?t) :: i16) = 2048 + ?t"
    using b by (intro sint_i16_of_int) simp_all
  show ?thesis
    unfolding sine_value_of_def clamp_sine_value_def Let_def t
    using b s by simp
qed

lemma shift_range: "0 \<le> (k :: int) \<Longrightarrow> k \<le> 4095 \<Longrightarrow> 0 \<le> k div 16 \<and> k div 16 \<le> 255"
  by presburger

lemma pwm_duty_range:
  "0 \<le> sint v \<Longrightarrow> sint v \<le> 4095 \<Longrightarrow> 0 \<le> pwm_duty v \<and> pwm_duty v \<le> 255"
  using shift_range [of "sint v"] by (simp add: pwm_duty_def drop_bit_int_def)

lemma generate_tone_emits:
  "generate_tone f t st = (st', Some d) \<Longrightarrow> d = pwm_duty (sine_value_of (phase st'))"
  by (auto simp: generate_tone_def Let_def split: if_splits)

lemma sine_value_of_quarter: "sine_value_of (pi / 2) = 4095"
  by (simp add: sine_value_of_def double_to_int_def clamp_sine_value_def)

lemma generate_tone_quarter:
  "generate_tone 250000 1 initial_tone_state = (\<lparr>phase = pi / 2, last_time = 1\<rparr>, Some 255)"
proof -
  have w: "wrap_phase (pi / 2) = pi / 2" by (rule wrap_phase_below) simp
  show ?thesis
    by (simp add: generate_tone_active initial_tone_state_def Let_def w sine_value_of_quarter
        pwm_duty_def drop_bit_int_def)
qed

text \<open>
  Claim C4. Starting from the initial state (phase 0), after every sequence of calls of
  \<^verbatim>\<open>generate_tone\<close>, with any 32-bit frequencies and clock values, the phase is at least
  0 and below \<open>2 * pi\<close>. The wrapping loop terminates for every phase (the function
  \<open>wrap_phase\<close> is total), whatever the overshoot.
\<close>

theorem C4_phase_wrapped:
  "0 \<le> phase (fst (tone_calls cs (initial_tone_state, None))) \<and>
   phase (fst (tone_calls cs (initial_tone_state, None))) < 2 * pi"
  by (rule tone_calls_phase_range) (simp_all add: initial_tone_state_def)


text \<open>
  Claim C5. For every phase the 12-bit value is 2048 plus the integer part of
  \<open>2047 * sin phase\<close>, less than 1 away from \<open>2048 + 2047 * sin phase\<close>, and lies in
  \<open>[0, 4095]\<close>; the clamp yields a value in \<open>[0, 4095]\<close> for every 16-bit input; the
  value written to the output, scaled down by 4 bits, lies in \<open>[0, 255]\<close>, and every
  value that \<^verbatim>\<open>generate_tone\<close> emits is obtained this way from the new phase.
\<close>

theorem C5_sample_clamped:
  "sint (sine_value_of ph) = 2048 + double_to_int (2047 * sin ph) \<and>
   \<bar>real_of_int (sint (sine_value_of ph)) - (2048 + 2047 * sin ph)\<bar> < 1 \<and>
   0 \<le> sint (sine_value_of ph) \<and> sint (sine_value_of ph) \<le> 4095 \<and>
   0 \<le> pwm_duty (sine_value_of ph) \<and> pwm_duty (sine_value_of ph) \<le> 255 \<and>
   0 \<le> sint (clamp_sine_value raw) \<and> sint (clamp_sine_value raw) \<le> 4095 \<and>
   0 \<le> pwm_duty (clamp_sine_value raw) \<and> pwm_duty (clamp_sine_value raw) \<le> 255 \<and>
   (generate_tone f t st = (st', Some d) \<longrightarrow>
      d = pwm_duty (sine_value_of (phase st')) \<and> 0 \<le> d \<and> d \<le> 255)"
proof -
  have v: "sint (sine_value_of ph) = 2048 + double_to_int (2047 * sin ph)"
    by (rule sine_value_of_eq)
  have e: "\<bar>real_of_int (sint (sine_value_of ph)) - (2048 + 2047 * sin ph)\<bar> < 1"
    using double_to_int_error [of "2047 * sin ph"] by (simp add: v)
  have r: "0 \<le> sint (sine_value_of p) \<and> sint (sine_value_of p) \<le> 4095" for p
    unfolding sine_value_of_def by (rule clamp_sine_value_range)
  have c: "0 \<le> sint (clamp_sine_value raw) \<and> sint (clamp_sine_value raw) \<le> 4095"
    by (rule clamp_sine_value_range)
  have d1: "0 \<le> pwm_duty (sine_value_of p) \<and> pwm_duty (sine_value_of p) \<le> 255" for p
    using r [of p] by (simp add: pwm_duty_range)
  have d2: "0 \<le> pwm_duty (clamp_sine_value raw) \<and> pwm_duty (clamp_sine_value raw) \<le> 255"
    using c by (simp add: pwm_duty_range)
  have g: "d = pwm_duty (sine_value_of (phase st')) \<and> 0 \<le> d \<and> d \<le> 255"
    if "generate_tone f t st = (st', Some d)"
    using generate_tone_emits [OF that] d1 [of "phase st'"] by simp
  show ?thesis using v e r [of ph] c d1 [of ph] d2 g by blast
qed

theorem C5_sample_clamped_witness:
  "generate_tone 250000 1 initial_tone_state = (\<lparr>phase = pi / 2, last_time = 1\<rparr>, Some 255) \<and>
   (255 :: int) = pwm_duty (sine_value_of (pi / 2)) \<and> sint (sine_value_of (pi / 2)) = 4095"
  using C5_sample_clamped [of "pi / 2" 0 250000 1 initial_tone_state
      "\<lparr>phase = pi / 2, last_time = 1\<rparr>" 255]
    generate_tone_quarter
  by (simp add: sine_value_of_quarter)


lemma tone_calls_zero_frequency: "tone_calls (map (Pair 0) ts) (st, pin) = (st, pin)"
  by (induction ts) (simp_all add: generate_tone_idle)

lemma tone_calls_append:
  "tone_calls (xs @ ys) s = tone_calls ys (tone_calls xs s)"
proof (induction xs arbitrary: s)
  case Nil
  show ?case by simp
next
  case (Cons c xs)
  obtain f t where c: "c = (f, t)" by (cases c)
  obtain st pin where s: "s = (st, pin)" by (cases s)
  obtain st' out where g: "generate_tone f t st = (st', out)" by (cases "generate_tone f t st")
  show ?case using Cons.IH c s g by (cases out) simp_all
qed

lemma tone_calls_pin:
  "pin = None \<or> pin = Some (pwm_duty (sine_value_of (phase st))) \<Longrightarrow>
   tone_calls cs (st, pin) = (st', pin') \<Longrightarrow>
   pin' = None \<or> pin' = Some (pwm_duty (sine_value_of (phase st')))"
proof (induction cs arbitrary: st pin)
  case Nil
  then show ?case by simp
next
  case (Cons c cs)
  obtain f t where c: "c = (f, t)" by (cases c)
  obtain st1 out where g: "generate_tone f t st = (st1, out)" by (cases "generate_tone f t st")
  show ?case
  proof (cases out)
    case None
    with g have "st1 = st" by (auto simp: generate_tone_def Let_def split: if_splits)
    with None g c Cons.prems have "tone_calls cs (st, pin) = (st', pin')" by simp
    with Cons.IH Cons.prems(1) show ?thesis by blast
  next
    case (Some d)
    with g have "d = pwm_duty (sine_value_of (phase st1))" by (simp add: generate_tone_emits)
    moreover from Some g c Cons.prems have "tone_calls cs (st1, Some d) = (st', pin')" by simp
    ultimately show ?thesis using Cons.IH [of "Some d" st1] by blast
  qed
qed

lemma sine_value_of_pi: "sine_value_of pi = 2048"
  by (simp add: sine_value_of_def double_to_int_def clamp_sine_value_def)

text \<open>
  Claim C7. A call of \<^verbatim>\<open>generate_tone\<close> with zero elapsed time (the clock equals the
  stored timestamp) leaves the whole state, and so the phase, unchanged and emits
  nothing, for every frequency and every state; a second such call leaves the phase
  as the first one left it.
\<close>

theorem C7_zero_elapsed:
  "current_time - last_time st = 0 \<Longrightarrow>
   generate_tone f current_time st = (st, None) \<and>
   phase (fst (generate_tone f current_time st)) = phase st \<and>
   phase (fst (generate_tone f current_time (fst (generate_tone f current_time st)))) =
     phase (fst (generate_tone f current_time st))"
  by (simp add: generate_tone_idle)

theorem C7_zero_elapsed_witness:
  "(7 :: u32) - last_time \<lparr>phase = 1, last_time = 7\<rparr> = 0 \<and>
   generate_tone 440 7 \<lparr>phase = 1, last_time = 7\<rparr> = (\<lparr>phase = 1, last_time = 7\<rparr>, None)"
  using C7_zero_elapsed [of 7 "\<lparr>phase = 1, last_time = 7\<rparr>" 440] by simp

text \<open>
  Claim C8, as stated, fails on the code. From the initial state, calls with frequency 0
  write nothing at all: the output pin is never driven, although the phase 0 maps to
  the value 128. No emitted sample settles at the value of the current phase there.
\<close>

theorem C8_zero_frequency_counterexample:
  "generate_tone 0 5 initial_tone_state = (initial_tone_state, None) \<and>
   tone_calls [(0, 5), (0, 9)] (initial_tone_state, None) = (initial_tone_state, None) \<and>
   pwm_duty (sine_value_of (phase initial_tone_state)) = 128"
proof -
  have "sine_value_of 0 = 2048"
    by (simp add: sine_value_of_def double_to_int_def clamp_sine_value_def)
  then have "pwm_duty (sine_value_of (phase initial_tone_state)) = 128"
    by (simp add: initial_tone_state_def pwm_duty_def drop_bit_int_def)
  then show ?thesis by (simp add: generate_tone_idle)
qed

text \<open>
  Claim C8, amended. With frequency 0 a call of \<^verbatim>\<open>generate_tone\<close> leaves the state
  unchanged, so the phase does not advance, and it writes nothing, so over any number
  of such calls the output keeps what it held. In every state reached from the initial
  one the output either has never been written or holds the value the current phase
  maps to; that value need not be the centre value 128.
\<close>

theorem C8_zero_frequency_amended:
  "tone_calls cs (initial_tone_state, None) = (st, pin) \<Longrightarrow>
   generate_tone 0 t st = (st, None) \<and>
   tone_calls (map (Pair 0) ts) (st, pin) = (st, pin) \<and>
   (pin = None \<or> pin = Some (pwm_duty (sine_value_of (phase st))))"
proof -
  assume r: "tone_calls cs (initial_tone_state, None) = (st, pin)"
  have "pin = None \<or> pin = Some (pwm_duty (sine_value_of (phase st)))"
    using tone_calls_pin [OF _ r] by simp
  then show ?thesis
    by (simp add: generate_tone_idle tone_calls_zero_frequency)
qed

theorem C8_zero_frequency_amended_witness:
  "tone_calls [(250000, 1)] (initial_tone_state, None) =
     (\<lparr>phase = pi / 2, last_time = 1\<rparr>, Some 255) \<and>
   generate_tone 0 9 \<lparr>phase = pi / 2, last_time = 1\<rparr> = (\<lparr>phase = pi / 2, last_time = 1\<rparr>, None) \<and>
   tone_calls [(0, 9), (0, 20)] (\<lparr>phase = pi / 2, last_time = 1\<rparr>, Some 255) =
     (\<lparr>phase = pi / 2, last_time = 1\<rparr>, Some 255) \<and>
   pwm_duty (sine_value_of (pi / 2)) = 255 \<and> pwm_duty 2048 = 128"
proof -
  have r: "tone_calls [(250000, 1)] (initial_tone_state, None) =
     (\<lparr>phase = pi / 2, last_time = 1\<rparr>, Some 255)"
    by (simp add: generate_tone_quarter)
  have c: "pwm_duty 2048 = 128" by (simp add: pwm_duty_def drop_bit_int_def)
  show ?thesis
    using C8_zero_frequency_amended [OF r, of 9 "[9, 20]"] r c
    by (simp add: generate_tone_idle)
qed

text \<open>
  Claim C10. With frequency 0 and a positive elapsed time a call of \<^verbatim>\<open>generate_tone\<close>
  leaves phase and timestamp unchanged and emits nothing, also over several such
  calls. The next call with a nonzero frequency then advances the phase by
  \<open>2 * pi * frequency\<close> times the time since the stored timestamp (the difference of the
  32-bit microsecond counter), which spans the zero-frequency calls.
\<close>

theorem C10_zero_frequency_accumulates:
  "current_time - last_time st > 0 \<Longrightarrow>
   generate_tone 0 current_time st = (st, None) \<and>
   tone_calls (map (Pair 0) ts) (st, pin) = (st, pin) \<and>
   (f > 0 \<and> next_time - last_time st > 0 \<longrightarrow>
      fst (tone_calls (map (Pair 0) ts @ [(f, next_time)]) (st, pin)) =
        fst (generate_tone f next_time (fst (generate_tone 0 current_time st))) \<and>
      generate_tone f next_time (fst (generate_tone 0 current_time st)) =
        (let ph = wrap_phase (phase st +
                   2 * pi * real (unat f) * (real (unat (next_time - last_time st)) / 1000000))
         in (\<lparr>phase = ph, last_time = next_time\<rparr>, Some (pwm_duty (sine_value_of ph)))))"
proof -
  have idle: "generate_tone 0 current_time st = (st, None)"
    by (simp add: generate_tone_idle)
  have many: "tone_calls (map (Pair 0) ts) (st, pin) = (st, pin)"
    by (rule tone_calls_zero_frequency)
  have last: "fst (tone_calls (map (Pair 0) ts @ [(f, next_time)]) (st, pin)) = fst (generate_tone f next_time st)"
    unfolding tone_calls_append many
    by (cases "generate_tone f next_time st") (simp split: option.split)
  have active: "generate_tone f next_time st =
        (let ph = wrap_phase (phase st +
                   2 * pi * real (unat f) * (real (unat (next_time - last_time st)) / 1000000))
         in (\<lparr>phase = ph, last_time = next_time\<rparr>, Some (pwm_duty (sine_value_of ph))))"
    if "f > 0" and "next_time - last_time st > 0"
    using that by (intro generate_tone_active) (simp_all add: word_greater_zero_iff)
  show ?thesis
    unfolding idle fst_conv using many last active by blast
qed

theorem C10_zero_frequency_accumulates_witness:
  "(250000 :: u32) - last_time initial_tone_state > 0 \<and>
   (1 :: u32) > 0 \<and> (500000 :: u32) - last_time initial_tone_state > 0 \<and>
   generate_tone 0 250000 initial_tone_state = (initial_tone_state, None) \<and>
   generate_tone 1 500000 (fst (generate_tone 0 250000 initial_tone_state)) =
     (\<lparr>phase = pi, last_time = 500000\<rparr>, Some 128)"
proof -
  have w: "wrap_phase pi = pi" by (rule wrap_phase_below) simp
  have h: "(250000 :: u32) - last_time initial_tone_state > 0"
    by (simp add: initial_tone_state_def)
  show ?thesis
    using C10_zero_frequency_accumulates [OF h, where f = 1 and next_time = 500000 and ts = "[]" and pin = None]
    by (simp add: initial_tone_state_def Let_def w sine_value_of_pi pwm_duty_def drop_bit_int_def
        generate_tone_idle)
qed

section \<open>Properties of the timer reload\<close>

lemma Temperature_To_Frequency_bounds:
  "200 \<le> Temperature_To_Frequency a \<and> Temperature_To_Frequency a \<le> 2000"
  using map_frequency_bounds [of a]
  by (simp add: Temperature_To_Frequency_eq word_le_nat_alt)

lemma TIM2_Init_fault: "(TIM2_Init frequency tim2 = Inl DivideByZero) = (frequency = 0)"
  by (simp add: TIM2_Init_def Let_def)

lemma call_TIM2_Init_ok:
  "args_ok s \<Longrightarrow> 200 \<le> f \<Longrightarrow> f = 440 \<or> (\<exists>a. f = Temperature_To_Frequency a) \<Longrightarrow>
   \<exists>s'. call_TIM2_Init f s = Inr s' \<and> args_ok s'"
proof -
  assume ok: "args_ok s" and ge: "200 \<le> f" and src: "f = 440 \<or> (\<exists>a. f = Temperature_To_Frequency a)"
  from ge have "f \<noteq> 0" by auto
  then show ?thesis
    using ok ge src by (auto simp: call_TIM2_Init_def TIM2_Init_def Let_def)
qed

lemma main_iteration_ok:
  "args_ok s \<Longrightarrow> \<exists>s'. main_iteration a s = Inr s' \<and> args_ok s'"
proof (cases "main_retune_condition (Temperature_To_Frequency a) (mc_current_frequency s)")
  case True
  assume ok: "args_ok s"
  let ?s = "s\<lparr>mc_current_frequency := Temperature_To_Frequency a\<rparr>"
  have "args_ok ?s" using ok by (simp add:)
  then have "\<exists>s'. call_TIM2_Init (Temperature_To_Frequency a) ?s = Inr s' \<and> args_ok s'"
    using Temperature_To_Frequency_bounds [of a] by (intro call_TIM2_Init_ok) auto
  with True show ?thesis by (simp add: main_iteration_def Let_def)
next
  case False
  assume "args_ok s"
  with False show ?thesis by (simp add: main_iteration_def Let_def)
qed

lemma main_loop_ok:
  "args_ok s \<Longrightarrow> \<exists>s'. main_loop samples s = Inr s' \<and> args_ok s'"
proof (induction samples arbitrary: s)
  case Nil
  then show ?case by simp
next
  case (Cons a samples)
  from main_iteration_ok [OF Cons.prems, of a]
  obtain s1 where s1: "main_iteration a s = Inr s1" "args_ok s1" by blast
  from Cons.IH [OF s1(2)] s1(1) show ?case by simp
qed

lemma main_start_ok: "\<exists>s. main_start tim2 = Inr s \<and> args_ok s"
  unfolding main_start_def
  by (rule call_TIM2_Init_ok) (simp_all add:)

text \<open>
  Claim C9. \<^verbatim>\<open>TIM2_Init\<close> divides by zero exactly when its argument is 0. For every
  finite run of the main loop, on any samples, the program reaches no fault, and every
  argument passed to \<^verbatim>\<open>TIM2_Init\<close> is 440 or a result of
  \<^verbatim>\<open>Temperature_To_Frequency\<close>, is at least 200 and is not zero.
\<close>

theorem C9_no_division_by_zero:
  "(TIM2_Init frequency tim2 = Inl DivideByZero) = (frequency = 0) \<and>
   (\<exists>s. main_program tim2 samples = Inr s \<and>
        (\<forall>f \<in> set (mc_TIM2_Init_args s).
           (f = 440 \<or> (\<exists>a. f = Temperature_To_Frequency a)) \<and> 200 \<le> f \<and> f \<noteq> 0))"
proof -
  obtain s0 where s0: "main_start tim2 = Inr s0" "args_ok s0"
    using main_start_ok by blast
  obtain s where s: "main_loop samples s0 = Inr s" "args_ok s"
    using main_loop_ok [OF s0(2)] by blast
  have "main_program tim2 samples = Inr s"
    using s0(1) s(1) by (simp add: main_program_def)
  moreover have "\<forall>f \<in> set (mc_TIM2_Init_args s).
           (f = 440 \<or> (\<exists>a. f = Temperature_To_Frequency a)) \<and> 200 \<le> f \<and> f \<noteq> 0"
    using s(2) by auto
  ultimately show ?thesis using TIM2_Init_fault by blast
qed

theorem C9_no_division_by_zero_witness:
  "main_program \<lparr>PSC = 7, ARR = 7\<rparr> [0, 4095] =
     Inr \<lparr>mc_current_frequency = 2000, mc_tim2 = \<lparr>PSC = 0, ARR = 41999\<rparr>,
          mc_TIM2_Init_args = [2000, 200, 440]\<rparr> \<and>
   (200 :: u32) \<le> 2000 \<and> (200 :: u32) \<le> 200 \<and> (200 :: u32) \<le> 440"
proof -
  have t: "Temperature_To_Frequency 0 = 200" "Temperature_To_Frequency 4095 = 2000"
    by (simp_all add: Temperature_To_Frequency_def)
  have run: "main_program \<lparr>PSC = 7, ARR = 7\<rparr> [0, 4095] =
     Inr \<lparr>mc_current_frequency = 2000, mc_tim2 = \<lparr>PSC = 0, ARR = 41999\<rparr>,
          mc_TIM2_Init_args = [2000, 200, 440]\<rparr>"
    by (simp add: main_program_def main_start_def call_TIM2_Init_def TIM2_Init_def
        main_iteration_def main_retune_condition_def abs_diff_i32_def t Let_def)
  show ?thesis
    using C9_no_division_by_zero [of 0 "\<lparr>PSC = 7, ARR = 7\<rparr>" "[0, 4095]"] run by simp
qed

end
